theory Spec2Isabelle
  imports Complex_Main "HOL-Library.AList" "HOL-Library.Sublist"
begin

section \<open>The paper-trading bot of src/bots/nanba_paper_trading_real_price.py\<close>

text \<open>
  The embedding follows class \<open>PaperTradingBotRealPrice\<close>. Conventions:
  \<^item> Python floats are modelled as exact rationals (\<open>rat\<close>): every formula is the source's,
    but IEEE rounding, infinities and NaN are not represented.
  \<^item> The instance attributes form the record \<open>bot\<close>; a method that mutates \<open>self\<close> takes
    the record and returns the updated one.
  \<^item> \<open>self.positions\<close> is a Python dict, whose iteration order is insertion order and
    which \<open>update_positions\<close> iterates: it is an association list, written with
    \<open>AList.update\<close> (replace in place, else append: \<open>d[k] = v\<close>) and \<open>AList.delete\<close>
    (\<open>del d[k]\<close>, guarded by the \<open>KeyError\<close> of a missing key).
  \<^item> An uncaught exception is the left summand of \<open>error + bot\<close>.
  \<^item> Logging, the Telegram notifications and \<open>save_state\<close> swallow their own exceptions
    and do not touch the attributes, so they are left out; the clock readings
    \<open>opened_at\<close>/\<open>closed_at\<close> are left out as well.
  \<^item> A sweep is a JSON object: each field may be absent (\<open>option\<close>), and a present field
    already has its type, so the conversions \<open>float(...)\<close> are the identity.
  \<^item> The two f-string reasons are kept as the constructor and the values that are
    formatted into them; the id \<open>POS_nnnn\<close> is kept as the counter it prints.
\<close>

subsection \<open>Data\<close>

datatype error = KeyError string | ZeroDivisionError

datatype reason_text =
    Large_liquidation rat
  | Whale_active string nat

record price_data =
  pd_symbol :: string
  bid :: rat
  ask :: rat
  mid :: rat
  spread :: rat

record sweep =
  sw_trader :: "string option"
  sw_market :: "string option"
  sw_side :: "string option"
  sw_usd_amount :: "rat option"
  sw_size :: "rat option"

record signal =
  sg_symbol :: string
  sg_side :: string
  sg_reason :: reason_text
  sg_confidence :: rat
  sg_size :: rat
  sg_price :: rat

record position =
  pos_id :: nat
  pos_symbol :: string
  pos_side :: string
  pos_entry_price :: rat
  pos_size :: rat
  pos_tp_price :: rat
  pos_sl_price :: rat
  pos_confidence :: rat
  pos_reason :: reason_text

record trade =
  tr_id :: nat
  tr_symbol :: string
  tr_side :: string
  tr_entry_price :: rat
  tr_exit_price :: rat
  tr_size :: rat
  tr_pnl_pct :: rat
  tr_pnl_amount :: rat
  tr_reason :: string

record bot =
  balance :: rat
  initial_balance :: rat
  positions :: "(string \<times> position) list"
  trades :: "trade list"
  trade_counter :: nat
  symbols :: "string list"
  max_position_size :: rat
  tp_percent :: rat
  sl_percent :: rat
  min_confidence :: rat

text \<open>\<open>__init__\<close> when no state file exists (\<open>load_state\<close> then changes nothing).\<close>

definition init_bot :: "rat \<Rightarrow> bot" where
  "init_bot b =
     \<lparr>balance = b, initial_balance = b, positions = [], trades = [], trade_counter = 0,
      symbols = [''BTC'', ''ETH'', ''SOL''], max_position_size = 150,
      tp_percent = 6 / 10, sl_percent = 3, min_confidence = 60\<rparr>"

subsection \<open>Signal generation\<close>

text \<open>\<open>d.get(key, default)\<close> on a field that may be absent.\<close>

definition get_or :: "'a option \<Rightarrow> 'a \<Rightarrow> 'a" where
  "get_or v d = (case v of None \<Rightarrow> d | Some x \<Rightarrow> x)"

text \<open>\<open>str.upper()\<close>, on the ASCII letters.\<close>

definition upper_char :: "char \<Rightarrow> char" where
  "upper_char c =
     (case map_of (zip ''abcdefghijklmnopqrstuvwxyz'' ''ABCDEFGHIJKLMNOPQRSTUVWXYZ'') c of
        None \<Rightarrow> c | Some u \<Rightarrow> u)"

definition upper :: "string \<Rightarrow> string" where
  "upper s = map upper_char s"

text \<open>
  Lines 163-167: the first tracked symbol that is a substring of the upper-cased market,
  \<open>None\<close> when the loop finds none.
\<close>

definition resolve_symbol :: "string list \<Rightarrow> string \<Rightarrow> string option" where
  "resolve_symbol syms market = find (\<lambda>s. sublist s (upper market)) syms"

text \<open>Lines 149-154: the sweeps of each trader, a missing trader filed under \<open>unknown\<close>.\<close>

fun group_by_trader ::
  "sweep list \<Rightarrow> (string \<rightharpoonup> sweep list) \<Rightarrow> (string \<rightharpoonup> sweep list)" where
  "group_by_trader [] trader_activity = trader_activity"
| "group_by_trader (sweep # rest) trader_activity =
     (let trader = get_or (sw_trader sweep) ''unknown'';
          known = (case trader_activity trader of None \<Rightarrow> [] | Some ts \<Rightarrow> ts)
      in group_by_trader rest (trader_activity(trader \<mapsto> known @ [sweep])))"

text \<open>
  Lines 157-202, the body of the second loop: the signals one sweep appends
  (none, the liquidation signal, the whale signal, or both in this order).
\<close>

definition sweep_signals ::
  "bot \<Rightarrow> (string \<rightharpoonup> sweep list) \<Rightarrow> (string \<rightharpoonup> price_data) \<Rightarrow> sweep \<Rightarrow> signal list" where
  "sweep_signals st trader_activity prices sweep =
     (let usd_amount = get_or (sw_usd_amount sweep) 0;
          size = get_or (sw_size sweep) 0;
          side = get_or (sw_side sweep) ''BUY'';
          market = get_or (sw_market sweep) []
      in case resolve_symbol (symbols st) market of
           None \<Rightarrow> []
         | Some symbol \<Rightarrow>
             if symbol = [] then []
             else (case prices symbol of
                     None \<Rightarrow> []
                   | Some quote \<Rightarrow>
                       (if usd_amount \<ge> 50000 \<and> size > 1000
                        then [\<lparr>sg_symbol = symbol,
                               sg_side = (if side = ''SELL'' then ''BUY'' else ''SELL''),
                               sg_reason = Large_liquidation usd_amount,
                               sg_confidence = min (usd_amount / 100000) (9 / 10) * 100,
                               sg_size = min (usd_amount * (1 / 100))
                                           (min (balance st * (15 / 100)) (max_position_size st)),
                               sg_price = mid quote\<rparr>]
                        else [])
                       @
                       (let trader = get_or (sw_trader sweep) []
                        in case trader_activity trader of
                             None \<Rightarrow> []
                           | Some ts \<Rightarrow>
                               (let trader_trades =
                                      filter (\<lambda>t. get_or (sw_usd_amount t) 0 \<ge> 10000) ts
                                in if length trader_trades \<ge> 2
                                   then [\<lparr>sg_symbol = symbol,
                                          sg_side = side,
                                          sg_reason = Whale_active (take 10 trader)
                                                        (length trader_trades),
                                          sg_confidence = 75,
                                          sg_size = min (usd_amount * (1 / 10))
                                                      (min (balance st * (15 / 100))
                                                           (max_position_size st)),
                                          sg_price = mid quote\<rparr>]
                                   else []))))"

fun signals_loop ::
  "bot \<Rightarrow> (string \<rightharpoonup> sweep list) \<Rightarrow> (string \<rightharpoonup> price_data) \<Rightarrow> sweep list \<Rightarrow>
   signal list \<Rightarrow> signal list" where
  "signals_loop st trader_activity prices [] signals = signals"
| "signals_loop st trader_activity prices (sweep # rest) signals =
     signals_loop st trader_activity prices rest
       (signals @ sweep_signals st trader_activity prices sweep)"

definition generate_signals ::
  "bot \<Rightarrow> sweep list \<Rightarrow> (string \<rightharpoonup> price_data) \<Rightarrow> signal list" where
  "generate_signals st sweeps prices =
     signals_loop st (group_by_trader sweeps Map.empty) prices sweeps []"

subsection \<open>Opening, closing and evaluating positions\<close>

definition open_position :: "bot \<Rightarrow> signal \<Rightarrow> bot" where
  "open_position st signal =
     (let symbol = sg_symbol signal
      in if symbol \<in> set (map fst (positions st)) then st
         else (let size = sg_size signal
               in if size > balance st then st
                  else (let entry_price = sg_price signal;
                            tp_price = (if sg_side signal = ''BUY''
                                        then entry_price * (1 + tp_percent st / 100)
                                        else entry_price * (1 - tp_percent st / 100));
                            sl_price = (if sg_side signal = ''BUY''
                                        then entry_price * (1 - sl_percent st / 100)
                                        else entry_price * (1 + sl_percent st / 100));
                            position = \<lparr>pos_id = trade_counter st,
                                        pos_symbol = symbol,
                                        pos_side = sg_side signal,
                                        pos_entry_price = entry_price,
                                        pos_size = size,
                                        pos_tp_price = tp_price,
                                        pos_sl_price = sl_price,
                                        pos_confidence = sg_confidence signal,
                                        pos_reason = sg_reason signal\<rparr>
                        in st\<lparr>positions := AList.update symbol position (positions st),
                              balance := balance st - size,
                              trade_counter := trade_counter st + 1\<rparr>)))"

text \<open>
  \<open>close_position\<close>: the only statement that can raise is \<open>del self.positions[symbol]\<close>;
  nothing catches it, so the mutated attributes are lost with the run.
\<close>

definition close_position :: "bot \<Rightarrow> position \<Rightarrow> rat \<Rightarrow> string \<Rightarrow> rat \<Rightarrow> error + bot" where
  "close_position st position exit_price reason pnl_pct =
     (let symbol = pos_symbol position;
          size = pos_size position;
          pnl_amount = size * (pnl_pct / 100);
          trade = \<lparr>tr_id = pos_id position,
                   tr_symbol = symbol,
                   tr_side = pos_side position,
                   tr_entry_price = pos_entry_price position,
                   tr_exit_price = exit_price,
                   tr_size = size,
                   tr_pnl_pct = pnl_pct,
                   tr_pnl_amount = pnl_amount,
                   tr_reason = reason\<rparr>
      in if symbol \<in> set (map fst (positions st))
         then Inr (st\<lparr>balance := balance st + (size + pnl_amount),
                      trades := trades st @ [trade],
                      positions := AList.delete symbol (positions st)\<rparr>)
         else Inl (KeyError symbol))"

text \<open>
  Lines 261-278, the body of the loop of \<open>update_positions\<close> for one item of the
  snapshot \<open>list(self.positions.items())\<close>. Dividing a float by zero raises.
\<close>

definition check_position ::
  "bot \<Rightarrow> (string \<rightharpoonup> price_data) \<Rightarrow> string \<times> position \<Rightarrow> error + bot" where
  "check_position st prices item =
     (case item of (symbol, position) \<Rightarrow>
        (case prices symbol of
           None \<Rightarrow> Inr st
         | Some quote \<Rightarrow>
             (let current_price = mid quote;
                  entry_price = pos_entry_price position
              in if entry_price = 0 then Inl ZeroDivisionError
                 else (let pnl_pct = (if pos_side position = ''BUY''
                                      then ((current_price - entry_price) / entry_price) * 100
                                      else ((entry_price - current_price) / entry_price) * 100)
                       in if pnl_pct \<ge> tp_percent st
                          then close_position st position current_price ''TAKE_PROFIT'' pnl_pct
                          else if pnl_pct \<le> - sl_percent st
                          then close_position st position current_price ''STOP_LOSS'' pnl_pct
                          else Inr st))))"

fun update_loop ::
  "(string \<times> position) list \<Rightarrow> (string \<rightharpoonup> price_data) \<Rightarrow> bot \<Rightarrow> error + bot" where
  "update_loop [] prices st = Inr st"
| "update_loop (item # rest) prices st =
     (case check_position st prices item of
        Inl e \<Rightarrow> Inl e
      | Inr st' \<Rightarrow> update_loop rest prices st')"

definition update_positions :: "bot \<Rightarrow> (string \<rightharpoonup> price_data) \<Rightarrow> error + bot" where
  "update_positions st prices = update_loop (positions st) prices st"

text \<open>Step 4 of \<open>run\<close> (lines 429-431): the confidence gate in front of \<open>open_position\<close>.\<close>

definition admit_signal :: "bot \<Rightarrow> signal \<Rightarrow> bot" where
  "admit_signal st signal =
     (if sg_confidence signal \<ge> min_confidence st then open_position st signal else st)"

fun admit_signals :: "bot \<Rightarrow> signal list \<Rightarrow> bot" where
  "admit_signals st [] = st"
| "admit_signals st (signal # rest) = admit_signals (admit_signal st signal) rest"

subsection \<open>Reachable accounts and the quantities the specification names\<close>

text \<open>
  The accounts that a run can be in: it starts with no open position, and every step is
  either step 4 of \<open>run\<close> on some signal or \<open>close_position\<close> on a stored position that
  returns without raising.
\<close>

inductive reachable :: "bot \<Rightarrow> bot \<Rightarrow> bool" for st0 :: bot where
  start: "positions st0 = [] \<Longrightarrow> reachable st0 st0"
| admit: "reachable st0 st \<Longrightarrow> reachable st0 (admit_signal st signal)"
| close: "reachable st0 st \<Longrightarrow> (symbol, position) \<in> set (positions st) \<Longrightarrow>
          close_position st position exit_price reason pnl_pct = Inr st' \<Longrightarrow>
          reachable st0 st'"

text \<open>Every key is held once and is the symbol of the position stored under it.\<close>

definition wf_positions :: "(string \<times> position) list \<Rightarrow> bool" where
  "wf_positions ps \<longleftrightarrow> distinct (map fst ps) \<and> list_all (\<lambda>(k, p). pos_symbol p = k) ps"

text \<open>The open positions whose symbol is \<open>s\<close>.\<close>

definition open_for :: "bot \<Rightarrow> string \<Rightarrow> position list" where
  "open_for st s = filter (\<lambda>p. pos_symbol p = s) (map snd (positions st))"




text \<open>
  The admission condition in the words of the specification (section 4.3), with its
  \<open>minFloor\<close> as a parameter.
\<close>

definition spec_admit_condition :: "rat \<Rightarrow> bot \<Rightarrow> signal \<Rightarrow> bool" where
  "spec_admit_condition min_floor st signal \<longleftrightarrow>
     sg_symbol signal \<notin> set (map fst (positions st)) \<and>
     sg_confidence signal \<ge> min_confidence st \<and>
     sg_size signal \<ge> min_floor \<and>
     sg_size signal \<le> balance st"

text \<open>The position that \<open>open_position\<close> builds from a signal (lines 221-241).\<close>

definition position_of :: "bot \<Rightarrow> signal \<Rightarrow> position" where
  "position_of st signal =
     \<lparr>pos_id = trade_counter st,
      pos_symbol = sg_symbol signal,
      pos_side = sg_side signal,
      pos_entry_price = sg_price signal,
      pos_size = sg_size signal,
      pos_tp_price = (if sg_side signal = ''BUY''
                      then sg_price signal * (1 + tp_percent st / 100)
                      else sg_price signal * (1 - tp_percent st / 100)),
      pos_sl_price = (if sg_side signal = ''BUY''
                      then sg_price signal * (1 - sl_percent st / 100)
                      else sg_price signal * (1 + sl_percent st / 100)),
      pos_confidence = sg_confidence signal,
      pos_reason = sg_reason signal\<rparr>"

text \<open>The trade that \<open>close_position\<close> appends (lines 286-301).\<close>

definition trade_of :: "position \<Rightarrow> rat \<Rightarrow> string \<Rightarrow> rat \<Rightarrow> trade" where
  "trade_of position exit_price reason pnl_pct =
     \<lparr>tr_id = pos_id position,
      tr_symbol = pos_symbol position,
      tr_side = pos_side position,
      tr_entry_price = pos_entry_price position,
      tr_exit_price = exit_price,
      tr_size = pos_size position,
      tr_pnl_pct = pnl_pct,
      tr_pnl_amount = pos_size position * (pnl_pct / 100),
      tr_reason = reason\<rparr>"

text \<open>
  The percentage P&L and the close decision in the words of the specification
  (section 4.3, \<open>OPEN \<rightarrow> NONE\<close>).
\<close>

definition spec_pnl_pct :: "string \<Rightarrow> rat \<Rightarrow> rat \<Rightarrow> rat" where
  "spec_pnl_pct side entry current =
     (if side = ''BUY'' then (current - entry) / entry * 100
      else (entry - current) / entry * 100)"

definition spec_decision :: "rat \<Rightarrow> rat \<Rightarrow> rat \<Rightarrow> string option" where
  "spec_decision tp sl pnl =
     (if pnl \<ge> tp then Some ''TAKE_PROFIT''
      else if pnl \<le> - sl then Some ''STOP_LOSS''
      else None)"

definition is_liquidation :: "signal \<Rightarrow> bool" where
  "is_liquidation sg = (case sg_reason sg of Large_liquidation a \<Rightarrow> True | Whale_active t n \<Rightarrow> False)"


subsection \<open>The inputs of the scenarios\<close>

definition quote_at :: "string \<Rightarrow> rat \<Rightarrow> price_data" where
  "quote_at s m = \<lparr>pd_symbol = s, bid = m, ask = m, mid = m, spread = 0\<rparr>"

definition scenario_A_signal :: signal where
  "scenario_A_signal =
     \<lparr>sg_symbol = ''BTC'', sg_side = ''BUY'', sg_reason = Large_liquidation 70000,
      sg_confidence = 70, sg_size = 100, sg_price = 50000\<rparr>"

definition small_signal :: signal where
  "small_signal =
     \<lparr>sg_symbol = ''BTC'', sg_side = ''BUY'', sg_reason = Large_liquidation 70000,
      sg_confidence = 70, sg_size = 5, sg_price = 50000\<rparr>"

definition zero_signal :: signal where
  "zero_signal =
     \<lparr>sg_symbol = ''ETH'', sg_side = ''BUY'', sg_reason = Large_liquidation 60000,
      sg_confidence = 60, sg_size = 0, sg_price = 3000\<rparr>"

definition scenario_C_sweep :: sweep where
  "scenario_C_sweep =
     \<lparr>sw_trader = Some ''T9'', sw_market = Some ''ETH-PERP'', sw_side = Some ''SELL'',
      sw_usd_amount = Some 60000, sw_size = Some 1500\<rparr>"



section \<open>Properties\<close>

subsection \<open>Opening and closing, step by step\<close>

lemma update_fresh: "k \<notin> set (map fst al) \<Longrightarrow> AList.update k v al = al @ [(k, v)]"
  by (induction al) auto

lemma open_position_admitted:
  assumes "sg_symbol signal \<notin> set (map fst (positions st))" and "sg_size signal \<le> balance st"
  shows "open_position st signal =
           st\<lparr>positions := positions st @ [(sg_symbol signal, position_of st signal)],
              balance := balance st - sg_size signal,
              trade_counter := trade_counter st + 1\<rparr>"
  using assms by (simp add: open_position_def position_of_def Let_def update_fresh)

lemma open_position_rejected:
  "sg_symbol signal \<in> set (map fst (positions st)) \<or> sg_size signal > balance st \<Longrightarrow>
   open_position st signal = st"
  by (auto simp: open_position_def Let_def)

lemma bot_counter_neq:
  "st\<lparr>positions := ps, balance := b, trade_counter := trade_counter st + 1\<rparr> \<noteq> st"
proof
  assume "st\<lparr>positions := ps, balance := b, trade_counter := trade_counter st + 1\<rparr> = st"
  then have "trade_counter (st\<lparr>positions := ps, balance := b,
                                trade_counter := trade_counter st + 1\<rparr>) = trade_counter st"
    by simp
  then show False by simp
qed

lemma close_position_ok:
  "pos_symbol position \<in> set (map fst (positions st)) \<Longrightarrow>
   close_position st position exit_price reason pnl_pct =
     Inr (st\<lparr>balance := balance st + (pos_size position + pos_size position * (pnl_pct / 100)),
             trades := trades st @ [trade_of position exit_price reason pnl_pct],
             positions := AList.delete (pos_symbol position) (positions st)\<rparr>)"
  by (simp add: close_position_def trade_of_def Let_def)

lemma close_position_err:
  "pos_symbol position \<notin> set (map fst (positions st)) \<Longrightarrow>
   close_position st position exit_price reason pnl_pct = Inl (KeyError (pos_symbol position))"
  by (simp add: close_position_def Let_def)

subsection \<open>Take-profit and stop-loss prices\<close>

text \<open>
  Claim C7. A signal that \<open>open_position\<close> admits (its symbol has no position and its size
  does not exceed the balance) is stored under its symbol with the signal's price as entry
  price; for a BUY the take-profit price is \<open>entry * (1 + tp_percent / 100)\<close> and the
  stop-loss price \<open>entry * (1 - sl_percent / 100)\<close>, for any other side (SELL) the signs are
  exchanged; the balance drops by the size. Numbers are exact rationals. The witness is
  scenario A: entry 50000, 0.6 and 3.0 percent give 50300 and 48500, and the balance goes
  from 1000 to 900.
\<close>

theorem open_position_tp_sl:
  assumes "sg_symbol signal \<notin> set (map fst (positions st))" and "sg_size signal \<le> balance st"
  shows "\<exists>p. map_of (positions (open_position st signal)) (sg_symbol signal) = Some p \<and>
             pos_entry_price p = sg_price signal \<and>
             pos_tp_price p = (if sg_side signal = ''BUY''
                               then sg_price signal * (1 + tp_percent st / 100)
                               else sg_price signal * (1 - tp_percent st / 100)) \<and>
             pos_sl_price p = (if sg_side signal = ''BUY''
                               then sg_price signal * (1 - sl_percent st / 100)
                               else sg_price signal * (1 + sl_percent st / 100)) \<and>
             balance (open_position st signal) = balance st - sg_size signal"
proof -
  have "map_of (positions (open_position st signal)) (sg_symbol signal) =
          Some (position_of st signal)"
    using assms by (simp add: open_position_def position_of_def Let_def update_conv')
  moreover have "balance (open_position st signal) = balance st - sg_size signal"
    using assms by (simp add: open_position_def Let_def)
  ultimately show ?thesis
    by (simp add: position_of_def)
qed

theorem open_position_tp_sl_witness:
  "\<exists>p. map_of (positions (open_position (init_bot 1000) scenario_A_signal)) ''BTC'' = Some p \<and>
       pos_entry_price p = 50000 \<and> pos_tp_price p = 50300 \<and> pos_sl_price p = 48500 \<and>
       balance (open_position (init_bot 1000) scenario_A_signal) = 900"
  using open_position_tp_sl [of scenario_A_signal "init_bot 1000"]
  by (simp add: scenario_A_signal_def init_bot_def)

subsection \<open>Admission\<close>

lemma admit_signal_admitted:
  assumes "sg_symbol signal \<notin> set (map fst (positions st))"
      and "sg_confidence signal \<ge> min_confidence st" and "sg_size signal \<le> balance st"
  shows "admit_signal st signal =
           st\<lparr>positions := positions st @ [(sg_symbol signal, position_of st signal)],
              balance := balance st - sg_size signal,
              trade_counter := trade_counter st + 1\<rparr>"
  using assms by (simp add: admit_signal_def open_position_admitted)

lemma admit_signal_rejected:
  assumes "\<not> (sg_symbol signal \<notin> set (map fst (positions st)) \<and>
              sg_confidence signal \<ge> min_confidence st \<and> sg_size signal \<le> balance st)"
  shows "admit_signal st signal = st"
proof (cases "sg_confidence signal \<ge> min_confidence st")
  case True
  with assms have "sg_symbol signal \<in> set (map fst (positions st)) \<or> sg_size signal > balance st"
    by auto
  then show ?thesis
    using True by (simp add: admit_signal_def open_position_rejected)
next
  case False
  then show ?thesis by (simp add: admit_signal_def)
qed



text \<open>
  Claim C3, as the code has it. Step 4 of \<open>run\<close> together with \<open>open_position\<close> admits a
  signal if and only if its symbol has no open position, its confidence is at least
  \<open>min_confidence\<close> and its size is at most the balance; there is no minimum size. An
  admitted signal is appended as a new position; any other signal leaves the whole
  account unchanged.
\<close>

theorem admit_signal_iff:
  "(admit_signal st signal \<noteq> st \<longleftrightarrow>
      sg_symbol signal \<notin> set (map fst (positions st)) \<and>
      sg_confidence signal \<ge> min_confidence st \<and>
      sg_size signal \<le> balance st) \<and>
   (sg_symbol signal \<notin> set (map fst (positions st)) \<and>
    sg_confidence signal \<ge> min_confidence st \<and>
    sg_size signal \<le> balance st \<longrightarrow>
      positions (admit_signal st signal) =
        positions st @ [(sg_symbol signal, position_of st signal)]) \<and>
   (\<not> (sg_symbol signal \<notin> set (map fst (positions st)) \<and>
       sg_confidence signal \<ge> min_confidence st \<and>
       sg_size signal \<le> balance st) \<longrightarrow>
      admit_signal st signal = st)"
proof -
  let ?ok = "sg_symbol signal \<notin> set (map fst (positions st)) \<and>
             sg_confidence signal \<ge> min_confidence st \<and> sg_size signal \<le> balance st"
  have rej: "\<not> ?ok \<Longrightarrow> admit_signal st signal = st"
    by (rule admit_signal_rejected)
  have adm: "?ok \<Longrightarrow> admit_signal st signal =
           st\<lparr>positions := positions st @ [(sg_symbol signal, position_of st signal)],
              balance := balance st - sg_size signal,
              trade_counter := trade_counter st + 1\<rparr>"
    by (simp add: admit_signal_admitted)
  have neq: "?ok \<Longrightarrow> admit_signal st signal \<noteq> st"
    using adm bot_counter_neq by metis
  have pos: "?ok \<Longrightarrow> positions (admit_signal st signal) =
        positions st @ [(sg_symbol signal, position_of st signal)]"
    using adm by simp
  show ?thesis
    using rej neq pos by blast
qed

theorem admit_signal_iff_witness:
  "admit_signal (init_bot 1000) scenario_A_signal \<noteq> init_bot 1000 \<and>
   positions (admit_signal (init_bot 1000) scenario_A_signal) =
     [(''BTC'', position_of (init_bot 1000) scenario_A_signal)] \<and>
   admit_signal (init_bot 50) scenario_A_signal = init_bot 50"
proof -
  have a: "admit_signal (init_bot 1000) scenario_A_signal \<noteq> init_bot 1000 \<and>
     positions (admit_signal (init_bot 1000) scenario_A_signal) =
       positions (init_bot 1000) @
       [(sg_symbol scenario_A_signal, position_of (init_bot 1000) scenario_A_signal)]"
    using admit_signal_iff [where st = "init_bot 1000" and signal = scenario_A_signal]
    by (simp add: scenario_A_signal_def init_bot_def)
  have b: "admit_signal (init_bot 50) scenario_A_signal = init_bot 50"
    using admit_signal_iff [where st = "init_bot 50" and signal = scenario_A_signal]
    by (simp add: scenario_A_signal_def init_bot_def)
  from a have "positions (admit_signal (init_bot 1000) scenario_A_signal) =
       [(''BTC'', position_of (init_bot 1000) scenario_A_signal)]"
    by (simp add: scenario_A_signal_def init_bot_def)
  with a b show ?thesis by blast
qed

text \<open>
  The claim as the specification words it, with \<open>minFloor = 10\<close>, fails: a signal of size 5
  does not meet the specification's condition, yet on a fresh account of 1000 it is
  admitted, and the balance drops to 995.
\<close>

theorem admit_min_floor_counterexample:
  "\<not> spec_admit_condition 10 (init_bot 1000) small_signal \<and>
   admit_signal (init_bot 1000) small_signal \<noteq> init_bot 1000 \<and>
   positions (admit_signal (init_bot 1000) small_signal) =
     [(''BTC'', position_of (init_bot 1000) small_signal)] \<and>
   balance (admit_signal (init_bot 1000) small_signal) = 995"
proof -
  define st where "st = init_bot 1000"
  have eq: "admit_signal st small_signal =
          st\<lparr>positions := positions st @ [(sg_symbol small_signal, position_of st small_signal)],
             balance := balance st - sg_size small_signal,
             trade_counter := trade_counter st + 1\<rparr>"
    by (rule admit_signal_admitted) (simp_all add: st_def small_signal_def init_bot_def)
  have "\<not> spec_admit_condition 10 st small_signal"
    by (simp add: spec_admit_condition_def small_signal_def)
  moreover have "admit_signal st small_signal \<noteq> st"
    unfolding eq by (rule bot_counter_neq)
  moreover have "positions (admit_signal st small_signal) = [(''BTC'', position_of st small_signal)]"
    unfolding eq by (simp add: st_def small_signal_def init_bot_def)
  moreover have "balance (admit_signal st small_signal) = 995"
    unfolding eq by (simp add: st_def small_signal_def init_bot_def)
  ultimately show ?thesis
    unfolding st_def by blast
qed

lemma liquidation_in_sweep_signals:
  assumes "sg \<in> set (sweep_signals st trader_activity prices sweep)" and "is_liquidation sg"
  shows "get_or (sw_usd_amount sweep) 0 \<ge> 50000 \<and>
         sg_size sg = min (get_or (sw_usd_amount sweep) 0 * (1 / 100))
                          (min (balance st * (15 / 100)) (max_position_size st))"
  using assms
  by (auto simp: sweep_signals_def is_liquidation_def Let_def
           split: option.splits if_splits)

text \<open>
  Claim C10. With no position for the symbol, \<open>open_position\<close> rejects exactly when the size
  is strictly greater than the balance; no minimum size is asked for. On an account whose
  balance is 0, a signal of size 0 that passes the confidence gate is admitted: a position
  of size 0 is appended and the balance stays 0. A liquidation signal generated on such an
  account (with a non-negative position cap) has size 0.
\<close>

theorem insufficient_balance_strict:
  "(sg_symbol signal \<notin> set (map fst (positions st)) \<longrightarrow>
      (open_position st signal = st \<longleftrightarrow> sg_size signal > balance st)) \<and>
   (balance st = 0 \<and> sg_size signal = 0 \<and> sg_confidence signal \<ge> min_confidence st \<and>
    sg_symbol signal \<notin> set (map fst (positions st)) \<longrightarrow>
      (\<exists>p. positions (admit_signal st signal) = positions st @ [(sg_symbol signal, p)] \<and>
           pos_size p = 0) \<and>
      balance (admit_signal st signal) = 0) \<and>
   (balance st = 0 \<and> 0 \<le> max_position_size st \<and>
    sg \<in> set (sweep_signals st trader_activity prices sweep) \<and> is_liquidation sg \<longrightarrow>
      sg_size sg = 0)"
proof (intro conjI impI)
  assume fresh: "sg_symbol signal \<notin> set (map fst (positions st))"
  show "open_position st signal = st \<longleftrightarrow> sg_size signal > balance st"
  proof
    assume same: "open_position st signal = st"
    show "sg_size signal > balance st"
    proof (rule ccontr)
      assume "\<not> sg_size signal > balance st"
      then have "sg_size signal \<le> balance st" by simp
      from open_position_admitted [OF fresh this] same bot_counter_neq
      show False by metis
    qed
  next
    assume "sg_size signal > balance st"
    then show "open_position st signal = st"
      by (simp add: open_position_rejected)
  qed
next
  assume h: "balance st = 0 \<and> sg_size signal = 0 \<and> sg_confidence signal \<ge> min_confidence st \<and>
             sg_symbol signal \<notin> set (map fst (positions st))"
  then have eq: "admit_signal st signal =
           st\<lparr>positions := positions st @ [(sg_symbol signal, position_of st signal)],
              balance := balance st - sg_size signal,
              trade_counter := trade_counter st + 1\<rparr>"
    by (simp add: admit_signal_admitted)
  have "pos_size (position_of st signal) = 0"
    using h by (simp add: position_of_def)
  then show "\<exists>p. positions (admit_signal st signal) = positions st @ [(sg_symbol signal, p)] \<and>
           pos_size p = 0"
    by (simp add: eq)
  show "balance (admit_signal st signal) = 0"
    using h by (simp add: eq)
next
  assume h: "balance st = 0 \<and> 0 \<le> max_position_size st \<and>
    sg \<in> set (sweep_signals st trader_activity prices sweep) \<and> is_liquidation sg"
  then have "get_or (sw_usd_amount sweep) 0 \<ge> 50000 \<and>
         sg_size sg = min (get_or (sw_usd_amount sweep) 0 * (1 / 100))
                          (min (balance st * (15 / 100)) (max_position_size st))"
    using liquidation_in_sweep_signals by blast
  then show "sg_size sg = 0"
    using h by (simp add: min_def)
qed

lemma resolve_eth_perp: "resolve_symbol [''BTC'', ''ETH'', ''SOL''] ''ETH-PERP'' = Some ''ETH''"
  by (simp add: resolve_symbol_def upper_def upper_char_def sublist_code)

theorem insufficient_balance_strict_witness:
  "sweep_signals (init_bot 0) Map.empty [''ETH'' \<mapsto> quote_at ''ETH'' 3000] scenario_C_sweep =
     [zero_signal] \<and>
   is_liquidation zero_signal \<and> sg_size zero_signal = 0 \<and>
   open_position (init_bot 0) zero_signal \<noteq> init_bot 0 \<and>
   (\<exists>p. positions (admit_signal (init_bot 0) zero_signal) = [(''ETH'', p)] \<and> pos_size p = 0) \<and>
   balance (admit_signal (init_bot 0) zero_signal) = 0"
proof -
  define st where "st = init_bot 0"
  have gen: "sweep_signals st Map.empty [''ETH'' \<mapsto> quote_at ''ETH'' 3000] scenario_C_sweep =
     [zero_signal]"
    by (simp add: sweep_signals_def st_def init_bot_def scenario_C_sweep_def get_or_def
          resolve_eth_perp quote_at_def zero_signal_def)
  have liq: "is_liquidation zero_signal"
    by (simp add: is_liquidation_def zero_signal_def)
  have st0: "balance st = 0" "positions st = []" "min_confidence st = 60" "max_position_size st = 150"
    by (simp_all add: st_def init_bot_def)
  have zs: "sg_confidence zero_signal = 60" "sg_symbol zero_signal = ''ETH''"
    by (simp_all add: zero_signal_def)
  note inst = insufficient_balance_strict
      [where st = st and signal = zero_signal and sg = zero_signal
         and trader_activity = Map.empty and prices = "[''ETH'' \<mapsto> quote_at ''ETH'' 3000]"
         and sweep = scenario_C_sweep]
  have size0: "sg_size zero_signal = 0"
    using inst liq by (simp add: st0 gen)
  have "open_position st zero_signal \<noteq> st"
    using inst by (simp add: st0 zs size0)
  moreover have "(\<exists>p. positions (admit_signal st zero_signal) = [(''ETH'', p)] \<and> pos_size p = 0) \<and>
      balance (admit_signal st zero_signal) = 0"
    using inst by (simp add: st0 zs size0)
  ultimately show ?thesis
    using gen liq size0 unfolding st_def by blast
qed

subsection \<open>One position per symbol\<close>

lemma wf_positions_Nil: "wf_positions []"
  by (simp add: wf_positions_def)

lemma wf_positions_append:
  assumes "wf_positions ps" and "k \<notin> set (map fst ps)" and "pos_symbol p = k"
  shows "wf_positions (ps @ [(k, p)])"
  using assms by (auto simp: wf_positions_def)

lemma wf_positions_delete:
  assumes "wf_positions ps"
  shows "wf_positions (AList.delete k ps)"
proof -
  have "distinct (map fst (AList.delete k ps))"
    using assms by (simp add: wf_positions_def distinct_delete)
  moreover have "list_all (\<lambda>(k, p). pos_symbol p = k) (AList.delete k ps)"
    using assms by (auto simp: wf_positions_def AList.delete_eq list_all_iff)
  ultimately show ?thesis by (simp add: wf_positions_def)
qed

lemma wf_positions_symbol: "wf_positions ps \<Longrightarrow> (k, p) \<in> set ps \<Longrightarrow> pos_symbol p = k"
  by (auto simp: wf_positions_def list_all_iff)

lemma wf_positions_admit: "wf_positions (positions st) \<Longrightarrow> wf_positions (positions (admit_signal st signal))"
proof (cases "sg_symbol signal \<notin> set (map fst (positions st)) \<and>
              sg_confidence signal \<ge> min_confidence st \<and> sg_size signal \<le> balance st")
  case True
  assume "wf_positions (positions st)"
  then have "wf_positions (positions st @ [(sg_symbol signal, position_of st signal)])"
    using True by (intro wf_positions_append) (simp_all add: position_of_def)
  then show ?thesis
    using True by (simp add: admit_signal_admitted)
next
  case False
  assume "wf_positions (positions st)"
  then show ?thesis
    using False admit_signal_rejected [where st = st and signal = signal] by simp
qed

lemma close_position_Inr:
  assumes "close_position st position exit_price reason pnl_pct = Inr st'"
  shows "pos_symbol position \<in> set (map fst (positions st)) \<and>
         st' = st\<lparr>balance := balance st + (pos_size position + pos_size position * (pnl_pct / 100)),
                  trades := trades st @ [trade_of position exit_price reason pnl_pct],
                  positions := AList.delete (pos_symbol position) (positions st)\<rparr>"
proof (cases "pos_symbol position \<in> set (map fst (positions st))")
  case True
  then show ?thesis using assms by (simp add: close_position_ok)
next
  case False
  then show ?thesis using assms by (simp add: close_position_err)
qed

lemma wf_positions_close:
  assumes "wf_positions (positions st)"
      and "close_position st position exit_price reason pnl_pct = Inr st'"
  shows "wf_positions (positions st')"
  using close_position_Inr [OF assms(2)] assms(1) by (simp add: wf_positions_delete)

lemma reachable_wf: "reachable st0 st \<Longrightarrow> wf_positions (positions st)"
proof (induction rule: reachable.induct)
  case start
  then show ?case by (simp add: wf_positions_Nil)
next
  case (admit st signal)
  then show ?case by (simp add: wf_positions_admit)
next
  case (close st symbol position exit_price reason pnl_pct st')
  then show ?case using wf_positions_close by blast
qed

lemma wf_open_for_le1:
  assumes "wf_positions ps"
  shows "length (filter (\<lambda>p. pos_symbol p = s) (map snd ps)) \<le> 1"
  using assms
proof (induction ps)
  case Nil
  then show ?case by simp
next
  case (Cons a ps)
  obtain k p where a: "a = (k, p)" by (cases a)
  from Cons.prems have wf: "wf_positions ps" and kp: "pos_symbol p = k"
    and fresh: "k \<notin> set (map fst ps)"
    by (auto simp: wf_positions_def a)
  show ?case
  proof (cases "k = s")
    case True
    have "filter (\<lambda>p. pos_symbol p = s) (map snd ps) = []"
    proof (rule ccontr)
      assume "filter (\<lambda>p. pos_symbol p = s) (map snd ps) \<noteq> []"
      then obtain q where "q \<in> set (map snd ps)" and "pos_symbol q = s"
        by (metis (mono_tags, lifting) filter_False)
      then obtain k' where "(k', q) \<in> set ps" by auto
      with wf \<open>pos_symbol q = s\<close> have "(s, q) \<in> set ps"
        using wf_positions_symbol by blast
      then have "s \<in> set (map fst ps)" by force
      with fresh True show False by simp
    qed
    then show ?thesis by (simp add: a kp True)
  next
    case False
    then show ?thesis using Cons.IH [OF wf] by (simp add: a kp)
  qed
qed

lemma wf_delete_exact:
  assumes "wf_positions ps" and "(k, p) \<in> set ps"
  shows "AList.delete (pos_symbol p) ps = filter (\<lambda>item. item \<noteq> (k, p)) ps"
proof -
  have kp: "pos_symbol p = k" using assms wf_positions_symbol by blast
  have d: "distinct (map fst ps)" using assms(1) by (simp add: wf_positions_def)
  have "\<And>item. item \<in> set ps \<Longrightarrow> (k \<noteq> fst item) = (item \<noteq> (k, p))"
  proof -
    fix item assume i: "item \<in> set ps"
    show "(k \<noteq> fst item) = (item \<noteq> (k, p))"
    proof (cases "fst item = k")
      case True
      then have "item = (k, p)"
        using d i assms(2) by (metis eq_key_imp_eq_value prod.collapse)
      then show ?thesis by simp
    next
      case False
      then show ?thesis by auto
    qed
  qed
  then have "filter (\<lambda>item. k \<noteq> fst item) ps = filter (\<lambda>item. item \<noteq> (k, p)) ps"
    by (intro filter_cong) auto
  then show ?thesis
    by (simp add: AList.delete_eq kp case_prod_unfold)
qed

text \<open>
  Claim C1. In every account reachable from one with no open position, by admissions
  (step 4 of \<open>run\<close>) and closes of stored positions: at most one open position has any
  given symbol and no key is held twice; admitting a signal whose symbol has an open
  position leaves the account unchanged; and a close that returns removes the closed
  position and no other.
\<close>

theorem one_position_per_symbol:
  assumes "reachable st0 st"
  shows "length (open_for st s) \<le> 1 \<and>
         distinct (map fst (positions st)) \<and>
         (sg_symbol signal \<in> set (map fst (positions st)) \<longrightarrow> admit_signal st signal = st) \<and>
         ((k, p) \<in> set (positions st) \<and>
          close_position st p exit_price reason pnl_pct = Inr st' \<longrightarrow>
            positions st' = filter (\<lambda>item. item \<noteq> (k, p)) (positions st) \<and>
            map_of (positions st') = (map_of (positions st))(k := None))"
proof -
  have wf: "wf_positions (positions st)"
    using assms by (rule reachable_wf)
  have one: "length (open_for st s) \<le> 1"
    unfolding open_for_def using wf by (rule wf_open_for_le1)
  have dist: "distinct (map fst (positions st))"
    using wf by (simp add: wf_positions_def)
  have dup: "sg_symbol signal \<in> set (map fst (positions st)) \<Longrightarrow> admit_signal st signal = st"
    by (rule admit_signal_rejected) simp
  have cl: "positions st' = filter (\<lambda>item. item \<noteq> (k, p)) (positions st) \<and>
            map_of (positions st') = (map_of (positions st))(k := None)"
    if h: "(k, p) \<in> set (positions st)"
      and c: "close_position st p exit_price reason pnl_pct = Inr st'"
  proof -
    have eq: "positions st' = AList.delete (pos_symbol p) (positions st)"
      using close_position_Inr [OF c] by simp
    have kp: "pos_symbol p = k" using wf h wf_positions_symbol by blast
    have "positions st' = filter (\<lambda>item. item \<noteq> (k, p)) (positions st)"
      using wf_delete_exact [OF wf h] eq by simp
    moreover have "map_of (positions st') = (map_of (positions st))(k := None)"
      unfolding eq kp by (rule delete_conv')
    ultimately show ?thesis by blast
  qed
  show ?thesis
    using one dist dup cl by blast
qed

theorem one_position_per_symbol_witness:
  "reachable (init_bot 1000) (admit_signal (init_bot 1000) scenario_A_signal) \<and>
   length (open_for (admit_signal (init_bot 1000) scenario_A_signal) ''BTC'') \<le> 1 \<and>
   admit_signal (admit_signal (init_bot 1000) scenario_A_signal) scenario_A_signal =
     admit_signal (init_bot 1000) scenario_A_signal \<and>
   (\<exists>st'. close_position (admit_signal (init_bot 1000) scenario_A_signal)
            (position_of (init_bot 1000) scenario_A_signal) 50310 ''TAKE_PROFIT'' (62 / 100) =
            Inr st' \<and>
          positions st' = [])"
proof -
  define st0 where "st0 = init_bot 1000"
  define p where "p = position_of st0 scenario_A_signal"
  define st where "st = admit_signal st0 scenario_A_signal"
  have r: "reachable st0 st"
    unfolding st_def by (rule reachable.admit, rule reachable.start) (simp add: st0_def init_bot_def)
  have pos: "positions st = [(''BTC'', p)]"
    unfolding st_def p_def
    using admit_signal_admitted [where signal = scenario_A_signal and st = st0]
    by (simp add: scenario_A_signal_def st0_def init_bot_def)
  have psym: "pos_symbol p = ''BTC''"
    by (simp add: p_def position_of_def scenario_A_signal_def)
  obtain st' where cl: "close_position st p 50310 ''TAKE_PROFIT'' (62 / 100) = Inr st'"
    by (simp add: close_position_ok pos psym)
  note inst = one_position_per_symbol
      [OF r, where s = "''BTC''" and signal = scenario_A_signal and k = "''BTC''" and p = p
         and exit_price = 50310 and reason = "''TAKE_PROFIT''" and pnl_pct = "62 / 100"
         and st' = st']
  have one: "length (open_for st ''BTC'') \<le> 1"
    using inst by blast
  have "sg_symbol scenario_A_signal \<in> set (map fst (positions st))"
    by (simp add: pos scenario_A_signal_def)
  then have dup: "admit_signal st scenario_A_signal = st"
    using inst by blast
  have "(''BTC'', p) \<in> set (positions st)"
    by (simp add: pos)
  then have "positions st' = filter (\<lambda>item. item \<noteq> (''BTC'', p)) (positions st)"
    using inst cl by blast
  then have "positions st' = []"
    by (simp add: pos)
  then show ?thesis
    using r one dup cl unfolding st_def p_def st0_def by blast
qed

subsection \<open>Escrow\<close>








subsection \<open>Evaluating open positions\<close>

lemma check_position_no_quote:
  "prices symbol = None \<Longrightarrow> check_position st prices (symbol, position) = Inr st"
  by (simp add: check_position_def)

lemma check_position_quoted:
  assumes "prices symbol = Some q" and "pos_entry_price position \<noteq> 0"
  shows "check_position st prices (symbol, position) =
           (case spec_decision (tp_percent st) (sl_percent st)
                   (spec_pnl_pct (pos_side position) (pos_entry_price position) (mid q)) of
              None \<Rightarrow> Inr st
            | Some reason \<Rightarrow>
                close_position st position (mid q) reason
                  (spec_pnl_pct (pos_side position) (pos_entry_price position) (mid q)))"
  using assms
  by (simp add: check_position_def spec_decision_def spec_pnl_pct_def Let_def)

lemma check_position_Inr:
  assumes "check_position st prices (symbol, position) = Inr st1"
  shows "st1 = st \<or>
         (prices symbol \<noteq> None \<and>
          (\<exists>exit_price reason pnl_pct.
              close_position st position exit_price reason pnl_pct = Inr st1))"
proof (cases "prices symbol")
  case None
  then show ?thesis using assms by (simp add: check_position_def)
next
  case (Some q)
  show ?thesis
  proof (cases "pos_entry_price position = 0")
    case True
    then show ?thesis using assms Some by (simp add: check_position_def)
  next
    case False
    from assms show ?thesis
      unfolding check_position_quoted [where prices = prices and symbol = symbol, OF Some False]
      by (auto simp: Some split: option.splits)
  qed
qed






subsection \<open>Positions without a quote\<close>

lemma update_loop_keeps:
  assumes "update_loop items prices st = Inr st'"
      and "wf_positions (positions st)"
      and "list_all (\<lambda>(k, p). pos_symbol p = k) items"
      and "prices symbol = None"
      and "(symbol, position) \<in> set (positions st)"
  shows "(symbol, position) \<in> set (positions st') \<and> wf_positions (positions st')"
  using assms
proof (induction items arbitrary: st)
  case Nil
  then show ?case by simp
next
  case (Cons item rest)
  obtain k p where item: "item = (k, p)" by (cases item)
  from Cons.prems(1) obtain st1 where
    step: "check_position st prices (k, p) = Inr st1" and l: "update_loop rest prices st1 = Inr st'"
    by (auto simp: item split: sum.splits)
  from Cons.prems(3) have kp: "pos_symbol p = k"
    and la: "list_all (\<lambda>(k, p). pos_symbol p = k) rest"
    by (simp_all add: item)
  have keep: "(symbol, position) \<in> set (positions st1) \<and> wf_positions (positions st1)"
  proof (cases "st1 = st")
    case True
    then show ?thesis using Cons.prems by simp
  next
    case False
    with check_position_Inr [OF step] obtain exit_price reason pnl_pct where
      q: "prices k \<noteq> None" and c: "close_position st p exit_price reason pnl_pct = Inr st1"
      by blast
    have ne: "k \<noteq> symbol" using q Cons.prems(4) by auto
    have "positions st1 = AList.delete k (positions st)"
      using close_position_Inr [OF c] by (simp add: kp)
    then have "(symbol, position) \<in> set (positions st1)"
      using Cons.prems(5) ne by (auto simp: AList.delete_eq)
    moreover have "wf_positions (positions st1)"
      using wf_positions_close [OF Cons.prems(2) c] .
    ultimately show ?thesis by simp
  qed
  show ?case
    using Cons.IH [OF l _ la Cons.prems(4)] keep by blast
qed

lemma update_loop_no_quotes:
  "list_all (\<lambda>item. prices (fst item) = None) items \<Longrightarrow> update_loop items prices st = Inr st"
  by (induction items) (auto simp: check_position_no_quote)

text \<open>
  Claim C9. The evaluation of a position whose symbol has no quote returns the account as
  it was: positions, balance and trade history alike. After a whole cycle that returns, in
  a reachable account, such a position is still stored under its symbol, unchanged; and a
  cycle in which no stored symbol has a quote returns the account as it was.
\<close>

theorem no_quote_untouched:
  "(prices symbol = None \<longrightarrow> check_position st prices (symbol, position) = Inr st) \<and>
   (reachable st0 st \<and> (symbol, position) \<in> set (positions st) \<and> prices symbol = None \<and>
    update_positions st prices = Inr st' \<longrightarrow>
      (symbol, position) \<in> set (positions st') \<and>
      map_of (positions st') symbol = Some position) \<and>
   (list_all (\<lambda>item. prices (fst item) = None) (positions st) \<longrightarrow>
      update_positions st prices = Inr st)"
proof (intro conjI impI)
  assume "prices symbol = None"
  then show "check_position st prices (symbol, position) = Inr st"
    by (rule check_position_no_quote)
next
  assume h: "reachable st0 st \<and> (symbol, position) \<in> set (positions st) \<and>
             prices symbol = None \<and> update_positions st prices = Inr st'"
  then have wf: "wf_positions (positions st)"
    using reachable_wf by blast
  then have la: "list_all (\<lambda>(k, p). pos_symbol p = k) (positions st)"
    by (simp add: wf_positions_def)
  from h have l: "update_loop (positions st) prices st = Inr st'"
    by (simp add: update_positions_def)
  from h have nq: "prices symbol = None" and mem: "(symbol, position) \<in> set (positions st)"
    by simp_all
  from update_loop_keeps [OF l wf la nq mem]
  have mem': "(symbol, position) \<in> set (positions st')" and wf': "wf_positions (positions st')"
    by simp_all
  show "(symbol, position) \<in> set (positions st')" by (rule mem')
  show "map_of (positions st') symbol = Some position"
    using mem' wf' by (simp add: wf_positions_def)
next
  assume "list_all (\<lambda>item. prices (fst item) = None) (positions st)"
  then show "update_positions st prices = Inr st"
    by (simp add: update_positions_def update_loop_no_quotes)
qed

theorem no_quote_untouched_witness:
  "reachable (init_bot 1000) (admit_signal (init_bot 1000) scenario_A_signal) \<and>
   check_position (admit_signal (init_bot 1000) scenario_A_signal)
     [''ETH'' \<mapsto> quote_at ''ETH'' 3000]
     (''BTC'', position_of (init_bot 1000) scenario_A_signal) =
     Inr (admit_signal (init_bot 1000) scenario_A_signal) \<and>
   update_positions (admit_signal (init_bot 1000) scenario_A_signal)
     [''ETH'' \<mapsto> quote_at ''ETH'' 3000] =
     Inr (admit_signal (init_bot 1000) scenario_A_signal) \<and>
   map_of (positions (admit_signal (init_bot 1000) scenario_A_signal)) ''BTC'' =
     Some (position_of (init_bot 1000) scenario_A_signal)"
proof -
  define st0 where "st0 = init_bot 1000"
  define p where "p = position_of st0 scenario_A_signal"
  define st where "st = admit_signal st0 scenario_A_signal"
  define prices where "prices = [''ETH'' \<mapsto> quote_at ''ETH'' 3000]"
  have r: "reachable st0 st"
    unfolding st_def by (rule reachable.admit, rule reachable.start) (simp add: st0_def init_bot_def)
  have pos: "positions st = [(''BTC'', p)]"
    unfolding st_def p_def
    using admit_signal_admitted [where signal = scenario_A_signal and st = st0]
    by (simp add: scenario_A_signal_def st0_def init_bot_def)
  have nq: "prices ''BTC'' = None"
    by (simp add: prices_def)
  note inst = no_quote_untouched
      [where prices = prices and symbol = "''BTC''" and position = p and st = st
         and st0 = st0 and st' = st]
  have a: "check_position st prices (''BTC'', p) = Inr st"
    using inst nq by blast
  have "list_all (\<lambda>item. prices (fst item) = None) (positions st)"
    by (simp add: pos nq)
  then have b: "update_positions st prices = Inr st"
    using inst by blast
  have "(''BTC'', p) \<in> set (positions st)"
    by (simp add: pos)
  then have c: "map_of (positions st) ''BTC'' = Some p"
    using inst r nq b by blast
  show ?thesis
    using r a b c unfolding st_def p_def st0_def prices_def by blast
qed

subsection \<open>Signal generation\<close>

lemma signals_loop_concat:
  "signals_loop st trader_activity prices sweeps signals =
     signals @ concat (map (sweep_signals st trader_activity prices) sweeps)"
  by (induction sweeps arbitrary: signals) simp_all

lemma generate_signals_concat:
  "generate_signals st sweeps prices =
     concat (map (sweep_signals st (group_by_trader sweeps Map.empty) prices) sweeps)"
  by (simp add: generate_signals_def signals_loop_concat)


lemma sweep_signals_resolved:
  assumes "resolve_symbol (symbols st) (get_or (sw_market sweep) []) = Some symbol"
      and "symbol \<noteq> []" and "prices symbol = Some q"
  shows "sweep_signals st trader_activity prices sweep =
           (if get_or (sw_usd_amount sweep) 0 \<ge> 50000 \<and> get_or (sw_size sweep) 0 > 1000
            then [\<lparr>sg_symbol = symbol,
                   sg_side = (if get_or (sw_side sweep) ''BUY'' = ''SELL'' then ''BUY'' else ''SELL''),
                   sg_reason = Large_liquidation (get_or (sw_usd_amount sweep) 0),
                   sg_confidence = min (get_or (sw_usd_amount sweep) 0 / 100000) (9 / 10) * 100,
                   sg_size = min (get_or (sw_usd_amount sweep) 0 * (1 / 100))
                               (min (balance st * (15 / 100)) (max_position_size st)),
                   sg_price = mid q\<rparr>]
            else [])
           @
           (case trader_activity (get_or (sw_trader sweep) []) of
              None \<Rightarrow> []
            | Some ts \<Rightarrow>
                if length (filter (\<lambda>t. get_or (sw_usd_amount t) 0 \<ge> 10000) ts) \<ge> 2
                then [\<lparr>sg_symbol = symbol,
                       sg_side = get_or (sw_side sweep) ''BUY'',
                       sg_reason = Whale_active (take 10 (get_or (sw_trader sweep) []))
                                     (length (filter (\<lambda>t. get_or (sw_usd_amount t) 0 \<ge> 10000) ts)),
                       sg_confidence = 75,
                       sg_size = min (get_or (sw_usd_amount sweep) 0 * (1 / 10))
                                   (min (balance st * (15 / 100)) (max_position_size st)),
                       sg_price = mid q\<rparr>]
                else [])"
  using assms by (simp add: sweep_signals_def Let_def split: option.splits)

lemma sweep_signals_liquidation_below:
  "get_or (sw_usd_amount sweep) 0 < 50000 \<Longrightarrow>
   filter is_liquidation (sweep_signals st trader_activity prices sweep) = []"
  by (auto simp: sweep_signals_def is_liquidation_def Let_def filter_empty_conv
           split: option.splits if_splits)

text \<open>
  Claim C6. For a sweep that resolves to a non-empty tracked symbol with a quote, the
  liquidation signals among the signals it yields are: exactly one when
  \<open>usd_amount \<ge> 50000\<close> and \<open>size > 1000\<close>, with side BUY for a SELL sweep and SELL
  otherwise, confidence \<open>min (usd_amount / 100000) 0.9 * 100\<close>, and the quote's mid as price;
  and none otherwise. A sweep with \<open>usd_amount < 50000\<close> yields no liquidation signal at
  all, resolved or not. The liquidation signals of a batch are those of its sweeps, in
  order. Numbers are exact rationals.
\<close>

theorem liquidation_signal_rule:
  "(resolve_symbol (symbols st) (get_or (sw_market sweep) []) = Some symbol \<and>
    symbol \<noteq> [] \<and> prices symbol = Some q \<longrightarrow>
      filter is_liquidation (sweep_signals st trader_activity prices sweep) =
        (if get_or (sw_usd_amount sweep) 0 \<ge> 50000 \<and> get_or (sw_size sweep) 0 > 1000
         then [\<lparr>sg_symbol = symbol,
                sg_side = (if get_or (sw_side sweep) ''BUY'' = ''SELL'' then ''BUY'' else ''SELL''),
                sg_reason = Large_liquidation (get_or (sw_usd_amount sweep) 0),
                sg_confidence = min (get_or (sw_usd_amount sweep) 0 / 100000) (9 / 10) * 100,
                sg_size = min (get_or (sw_usd_amount sweep) 0 * (1 / 100))
                            (min (balance st * (15 / 100)) (max_position_size st)),
                sg_price = mid q\<rparr>]
         else [])) \<and>
   (get_or (sw_usd_amount sweep) 0 < 50000 \<longrightarrow>
      filter is_liquidation (sweep_signals st trader_activity prices sweep) = []) \<and>
   filter is_liquidation (generate_signals st sweeps prices) =
     concat (map (\<lambda>sweep. filter is_liquidation
                    (sweep_signals st (group_by_trader sweeps Map.empty) prices sweep)) sweeps)"
proof (intro conjI impI)
  assume h: "resolve_symbol (symbols st) (get_or (sw_market sweep) []) = Some symbol \<and>
    symbol \<noteq> [] \<and> prices symbol = Some q"
  then have r: "resolve_symbol (symbols st) (get_or (sw_market sweep) []) = Some symbol"
    and ne: "symbol \<noteq> []" and q: "prices symbol = Some q" by simp_all
  show "filter is_liquidation (sweep_signals st trader_activity prices sweep) =
        (if get_or (sw_usd_amount sweep) 0 \<ge> 50000 \<and> get_or (sw_size sweep) 0 > 1000
         then [\<lparr>sg_symbol = symbol,
                sg_side = (if get_or (sw_side sweep) ''BUY'' = ''SELL'' then ''BUY'' else ''SELL''),
                sg_reason = Large_liquidation (get_or (sw_usd_amount sweep) 0),
                sg_confidence = min (get_or (sw_usd_amount sweep) 0 / 100000) (9 / 10) * 100,
                sg_size = min (get_or (sw_usd_amount sweep) 0 * (1 / 100))
                            (min (balance st * (15 / 100)) (max_position_size st)),
                sg_price = mid q\<rparr>]
         else [])"
    unfolding sweep_signals_resolved [where prices = prices and symbol = symbol, OF r ne q]
    by (simp add: is_liquidation_def split: option.splits)
next
  assume "get_or (sw_usd_amount sweep) 0 < 50000"
  then show "filter is_liquidation (sweep_signals st trader_activity prices sweep) = []"
    by (rule sweep_signals_liquidation_below)
next
  show "filter is_liquidation (generate_signals st sweeps prices) =
     concat (map (\<lambda>sweep. filter is_liquidation
                    (sweep_signals st (group_by_trader sweeps Map.empty) prices sweep)) sweeps)"
    by (simp add: generate_signals_concat filter_concat comp_def)
qed



theorem liquidation_signal_rule_witness:
  "filter is_liquidation
     (sweep_signals (init_bot 1000) Map.empty [''ETH'' \<mapsto> quote_at ''ETH'' 3000] scenario_C_sweep) =
     [\<lparr>sg_symbol = ''ETH'', sg_side = ''BUY'', sg_reason = Large_liquidation 60000,
       sg_confidence = 60, sg_size = 150, sg_price = 3000\<rparr>] \<and>
   filter is_liquidation
     (sweep_signals (init_bot 1000) Map.empty [''ETH'' \<mapsto> quote_at ''ETH'' 3000]
        (scenario_C_sweep\<lparr>sw_usd_amount := Some 49999, sw_size := Some 1000000\<rparr>)) = []"
proof -
  define st where "st = init_bot 1000"
  define prices where "prices = [''ETH'' \<mapsto> quote_at ''ETH'' 3000]"
  have sy: "symbols st = [''BTC'', ''ETH'', ''SOL'']" and b: "balance st = 1000"
    and mx: "max_position_size st = 150"
    by (simp_all add: st_def init_bot_def)
  have res: "resolve_symbol (symbols st) (get_or (sw_market scenario_C_sweep) []) = Some ''ETH''"
    by (simp add: sy scenario_C_sweep_def get_or_def resolve_eth_perp)
  have q: "prices ''ETH'' = Some (quote_at ''ETH'' 3000)"
    by (simp add: prices_def)
  have a: "filter is_liquidation (sweep_signals st Map.empty prices scenario_C_sweep) =
     [\<lparr>sg_symbol = ''ETH'', sg_side = ''BUY'', sg_reason = Large_liquidation 60000,
       sg_confidence = 60, sg_size = 150, sg_price = 3000\<rparr>]"
    using liquidation_signal_rule
        [where st = st and sweep = scenario_C_sweep and symbol = "''ETH''" and prices = prices
           and q = "quote_at ''ETH'' 3000" and trader_activity = Map.empty]
      res q
    by (simp add: scenario_C_sweep_def get_or_def b mx quote_at_def)
  have c: "filter is_liquidation (sweep_signals st Map.empty prices
        (scenario_C_sweep\<lparr>sw_usd_amount := Some 49999, sw_size := Some 1000000\<rparr>)) = []"
    using liquidation_signal_rule
        [where st = st and prices = prices and trader_activity = Map.empty
           and sweep = "scenario_C_sweep\<lparr>sw_usd_amount := Some 49999, sw_size := Some 1000000\<rparr>"]
    by (simp add: get_or_def)
  show ?thesis
    using a c unfolding st_def prices_def by blast
qed






end
